theory Spec2Isabelle
  imports Complex_Main
begin

section \<open>Stance resolution of the virtual hexapod\<close>

text \<open>
  A shallow embedding of \<^verbatim>\<open>src/hexapod/VirtualHexapod.js\<close>. JavaScript numbers are read
  as exact reals. Objects are records; a field that the constructor may leave unassigned
  (\<^verbatim>\<open>undefined\<close>) is an \<open>option\<close>; dereferencing such a field raises \<^verbatim>\<open>TypeError\<close>, which
  is the \<open>Inl\<close> branch of a sum. Methods take \<open>this\<close> as an argument and return the
  object they build; \<^verbatim>\<open>cloneShift\<close> is modelled on a store of objects as well.
\<close>

subsection \<open>Vectors and transforms\<close>

datatype error = TypeError

text \<open>
  Modelled from the spec: the class \<^verbatim>\<open>Vector\<close> (\<^verbatim>\<open>./Vector\<close>) is missing from the sources.
  The spec calls it an immutable 3-D point; the property comment of the source lists its
  fields as \<^verbatim>\<open>{ x, y, z, name, id }\<close>. The fields are named \<open>vx\<close>, \<open>vy\<close>, \<open>vz\<close>,
  \<open>vname\<close>, \<open>vid\<close> here.
\<close>

record Vector =
  vx :: real
  vy :: real
  vz :: real
  vname :: string
  vid :: string

text \<open>
  Modelled from the spec: \<^verbatim>\<open>new Vector(x, y, z, name)\<close> with the identifier left out. The
  property comment of the source shows such a point (\<^verbatim>\<open>cogProjection\<close>) with
  \<^verbatim>\<open>id="no-id"\<close>.
\<close>

definition Vector_new :: "real \<Rightarrow> real \<Rightarrow> real \<Rightarrow> string \<Rightarrow> Vector" where
  "Vector_new a b c nm = \<lparr>vx = a, vy = b, vz = c, vname = nm, vid = ''no-id''\<rparr>"

text \<open>
  Modelled from the spec: a transform is a 4\<times>4 homogeneous matrix (missing from the sources,
  as are \<^verbatim>\<open>./geometry\<close> and the library \<^verbatim>\<open>mathjs\<close>); it is kept as four rows of four numbers.
\<close>

type_synonym row4 = "real \<times> real \<times> real \<times> real"
type_synonym matrix = "row4 \<times> row4 \<times> row4 \<times> row4"

text \<open>Modelled from the spec: \<^verbatim>\<open>identity(4)\<close> of mathjs, the 4\<times>4 identity matrix.\<close>

definition identity4 :: matrix where
  "identity4 = ((1, 0, 0, 0), (0, 1, 0, 0), (0, 0, 1, 0), (0, 0, 0, 1))"

text \<open>
  Modelled from the spec: \<^verbatim>\<open>Vector.newTrot(matrix, name)\<close> applies the homogeneous transform
  to the point and names the result; the property comment of the source shows the local
  axes it builds with \<^verbatim>\<open>id="no-id"\<close>. \<^verbatim>\<open>cloneTrot\<close>, \<^verbatim>\<open>cloneShift\<close> and
  \<^verbatim>\<open>cloneTrotShift\<close> are the rigid-transform clones of the spec (section 4.1): they keep
  name and identifier, rotate first and translate afterwards.
\<close>

definition Vector_trot :: "Vector \<Rightarrow> matrix \<Rightarrow> string \<Rightarrow> string \<Rightarrow> Vector" where
  "Vector_trot v m nm i =
     (case m of ((r00, r01, r02, tx), (r10, r11, r12, ty), (r20, r21, r22, tz), _) \<Rightarrow>
        \<lparr>vx = vx v * r00 + vy v * r01 + vz v * r02 + tx,
         vy = vx v * r10 + vy v * r11 + vz v * r12 + ty,
         vz = vx v * r20 + vy v * r21 + vz v * r22 + tz,
         vname = nm, vid = i\<rparr>)"

definition Vector_newTrot :: "Vector \<Rightarrow> matrix \<Rightarrow> string \<Rightarrow> Vector" where
  "Vector_newTrot v m nm = Vector_trot v m nm ''no-id''"

definition Vector_cloneTrot :: "Vector \<Rightarrow> matrix \<Rightarrow> Vector" where
  "Vector_cloneTrot v m = Vector_trot v m (vname v) (vid v)"

definition Vector_cloneShift :: "Vector \<Rightarrow> real \<Rightarrow> real \<Rightarrow> real \<Rightarrow> Vector" where
  "Vector_cloneShift v tx ty tz = v\<lparr>vx := vx v + tx, vy := vy v + ty, vz := vz v + tz\<rparr>"

definition Vector_cloneTrotShift :: "Vector \<Rightarrow> matrix \<Rightarrow> real \<Rightarrow> real \<Rightarrow> real \<Rightarrow> Vector" where
  "Vector_cloneTrotShift v m tx ty tz = Vector_cloneShift (Vector_cloneTrot v m) tx ty tz"

subsection \<open>Dimensions, pose and flags\<close>

record Dimensions =
  front :: real
  side :: real
  middle :: real
  coxia :: real
  femur :: real
  tibia :: real

record BodyDimensions =
  bd_front :: real
  bd_middle :: real
  bd_side :: real

record LegDimensions =
  ld_coxia :: real
  ld_femur :: real
  ld_tibia :: real

record Angles =
  alpha :: real
  beta :: real
  gamma :: real

text \<open>
  A pose maps a position name to the three angles of that leg. Inputs are poses with an
  entry for every position, so the lookup is a total function.
\<close>

type_synonym Pose = "string \<Rightarrow> Angles"

record Flags =
  noGravity :: bool
  shiftedUp :: bool
  hasNoPoints :: bool

subsection \<open>Body and legs\<close>

text \<open>
  Modelled from the spec: the class \<^verbatim>\<open>Hexagon\<close> (\<^verbatim>\<open>./Hexagon\<close>) is missing from the sources.
  The body holds six vertices, a head point and a centre of gravity; its clone operations
  apply the transform uniformly to every stored point (spec, section 4.2).
\<close>

record Hexagon =
  hex_dimensions :: BodyDimensions
  verticesList :: "Vector list"
  head :: Vector
  cog :: Vector

definition Hexagon_cloneTrot :: "Hexagon \<Rightarrow> matrix \<Rightarrow> Hexagon" where
  "Hexagon_cloneTrot h m =
     h\<lparr>verticesList := map (\<lambda>v. Vector_cloneTrot v m) (verticesList h),
       head := Vector_cloneTrot (head h) m,
       cog := Vector_cloneTrot (cog h) m\<rparr>"

definition Hexagon_cloneShift :: "Hexagon \<Rightarrow> real \<Rightarrow> real \<Rightarrow> real \<Rightarrow> Hexagon" where
  "Hexagon_cloneShift h tx ty tz =
     h\<lparr>verticesList := map (\<lambda>v. Vector_cloneShift v tx ty tz) (verticesList h),
       head := Vector_cloneShift (head h) tx ty tz,
       cog := Vector_cloneShift (cog h) tx ty tz\<rparr>"

definition Hexagon_cloneTrotShift :: "Hexagon \<Rightarrow> matrix \<Rightarrow> real \<Rightarrow> real \<Rightarrow> real \<Rightarrow> Hexagon" where
  "Hexagon_cloneTrotShift h m tx ty tz =
     h\<lparr>verticesList := map (\<lambda>v. Vector_cloneTrotShift v m tx ty tz) (verticesList h),
       head := Vector_cloneTrotShift (head h) m tx ty tz,
       cog := Vector_cloneTrotShift (cog h) m tx ty tz\<rparr>"

text \<open>
  Modelled from the spec: the class \<^verbatim>\<open>Linkage\<close> (\<^verbatim>\<open>./Linkage\<close>) is missing from the sources.
  A leg holds its joint points, its position identifier, its pose angles and one designated
  candidate ground-contact point; its clone operations return a leg with every point
  consistently transformed (spec, sections 3 and 4.1).
\<close>

record Linkage =
  leg_dimensions :: LegDimensions
  position :: string
  leg_pose :: Angles
  allPointsList :: "Vector list"
  maybeGroundContactPoint :: Vector

definition Linkage_cloneTrot :: "Linkage \<Rightarrow> matrix \<Rightarrow> Linkage" where
  "Linkage_cloneTrot leg m =
     leg\<lparr>allPointsList := map (\<lambda>v. Vector_cloneTrot v m) (allPointsList leg),
         maybeGroundContactPoint := Vector_cloneTrot (maybeGroundContactPoint leg) m\<rparr>"

definition Linkage_cloneShift :: "Linkage \<Rightarrow> real \<Rightarrow> real \<Rightarrow> real \<Rightarrow> Linkage" where
  "Linkage_cloneShift leg tx ty tz =
     leg\<lparr>allPointsList := map (\<lambda>v. Vector_cloneShift v tx ty tz) (allPointsList leg),
         maybeGroundContactPoint := Vector_cloneShift (maybeGroundContactPoint leg) tx ty tz\<rparr>"

definition Linkage_cloneTrotShift :: "Linkage \<Rightarrow> matrix \<Rightarrow> real \<Rightarrow> real \<Rightarrow> real \<Rightarrow> Linkage" where
  "Linkage_cloneTrotShift leg m tx ty tz =
     leg\<lparr>allPointsList := map (\<lambda>v. Vector_cloneTrotShift v m tx ty tz) (allPointsList leg),
         maybeGroundContactPoint :=
           Vector_cloneTrotShift (maybeGroundContactPoint leg) m tx ty tz\<rparr>"

subsection \<open>The consumed interfaces\<close>

text \<open>The result of the orientation solver when the pose is stable.\<close>

record Solved =
  nAxis :: Vector
  height :: real
  groundLegsNoGravity :: "Linkage list"

text \<open>
  The modules the constructor imports are missing from the sources; what they compute is a
  parameter of the model: the flat body built from the body dimensions, the forward
  kinematics of one leg (its joint points and its candidate ground-contact point; the
  attachment vertex is \<open>None\<close> where \<^verbatim>\<open>verticesList[index]\<close> is out of range), the canonical
  list of position names, the default pose, the orientation solver (\<open>None\<close> is its
  \<^verbatim>\<open>null\<close>), the three twist solvers and the two matrix constructors of \<^verbatim>\<open>./geometry\<close>.
\<close>

record Collaborators =
  Hexagon_new :: "BodyDimensions \<Rightarrow> Hexagon"
  forwardKinematics ::
    "LegDimensions \<Rightarrow> string \<Rightarrow> Vector option \<Rightarrow> Angles \<Rightarrow> Vector list \<times> Vector"
  POSITION_NAMES_LIST :: "string list"
  DEFAULT_POSE :: Pose
  computeOrientationProperties :: "Linkage list \<Rightarrow> Solved option"
  simpleTwist :: "Linkage list \<Rightarrow> real"
  mightTwist :: "Linkage list \<Rightarrow> bool"
  complexTwist :: "Vector list \<Rightarrow> Vector list \<Rightarrow> real"
  matrixToAlignVectorAtoB :: "Vector \<Rightarrow> Vector \<Rightarrow> matrix"
  tRotZmatrix :: "real \<Rightarrow> matrix"

text \<open>
  Modelled from the spec: \<^verbatim>\<open>new Linkage(legDimensions, position, vertex, pose)\<close> stores its
  dimensions, position and pose angles and the points the forward kinematics gives.
\<close>

definition Linkage_new ::
  "Collaborators \<Rightarrow> LegDimensions \<Rightarrow> string \<Rightarrow> Vector option \<Rightarrow> Angles \<Rightarrow> Linkage" where
  "Linkage_new env ld pos vertex angles =
     (case forwardKinematics env ld pos vertex angles of (points, contact) \<Rightarrow>
        \<lparr>leg_dimensions = ld, position = pos, leg_pose = angles,
         allPointsList = points, maybeGroundContactPoint = contact\<rparr>)"

subsection \<open>Module-level helpers of VirtualHexapod.js\<close>

record Axes =
  xAxis :: Vector
  yAxis :: Vector
  zAxis :: Vector

definition WORLD_AXES :: Axes where
  "WORLD_AXES =
     \<lparr>xAxis = Vector_new 1 0 0 ''worldXaxis'',
      yAxis = Vector_new 0 1 0 ''worldYaxis'',
      zAxis = Vector_new 0 0 1 ''worldZaxis''\<rparr>"

definition computeLocalAxes :: "matrix \<Rightarrow> Axes" where
  "computeLocalAxes transformMatrix =
     \<lparr>xAxis = Vector_newTrot (xAxis WORLD_AXES) transformMatrix ''hexapodXaxis'',
      yAxis = Vector_newTrot (yAxis WORLD_AXES) transformMatrix ''hexapodYaxis'',
      zAxis = Vector_newTrot (zAxis WORLD_AXES) transformMatrix ''hexapodZaxis''\<rparr>"

definition transformLocalAxes :: "Axes \<Rightarrow> matrix \<Rightarrow> Axes" where
  "transformLocalAxes axes twistMatrix =
     \<lparr>xAxis = Vector_cloneTrot (xAxis axes) twistMatrix,
      yAxis = Vector_cloneTrot (yAxis axes) twistMatrix,
      zAxis = Vector_cloneTrot (zAxis axes) twistMatrix\<rparr>"

text \<open>\<^verbatim>\<open>verticesList[index]\<close>: \<^verbatim>\<open>undefined\<close> when the index is out of range.\<close>

definition at_index :: "'a list \<Rightarrow> nat \<Rightarrow> 'a option" where
  "at_index xs i = (if i < length xs then Some (xs ! i) else None)"

definition buildLegsList ::
  "Collaborators \<Rightarrow> Vector list \<Rightarrow> Pose \<Rightarrow> LegDimensions \<Rightarrow> Linkage list" where
  "buildLegsList env vertices p legDims =
     map (\<lambda>(index, pos). Linkage_new env legDims pos (at_index vertices index) (p pos))
       (enumerate 0 (POSITION_NAMES_LIST env))"

subsection \<open>The class VirtualHexapod\<close>

record VirtualHexapod =
  dimensions :: Dimensions
  pose :: Pose
  twistAngle :: real
  legs :: "Linkage list option"
  body :: "Hexagon option"
  localAxes :: "Axes option"
  groundContactPoints :: "Vector list option"

definition bodyDimensions :: "VirtualHexapod \<Rightarrow> BodyDimensions" where
  "bodyDimensions this =
     \<lparr>bd_front = front (dimensions this), bd_middle = middle (dimensions this),
      bd_side = side (dimensions this)\<rparr>"

definition legDimensions :: "VirtualHexapod \<Rightarrow> LegDimensions" where
  "legDimensions this =
     \<lparr>ld_coxia = coxia (dimensions this), ld_femur = femur (dimensions this),
      ld_tibia = tibia (dimensions this)\<rparr>"

text \<open>\<^verbatim>\<open>Object.values(legDimensions)\<close>, in the order the getter inserts the keys.\<close>

definition LegDimensions_values :: "LegDimensions \<Rightarrow> real list" where
  "LegDimensions_values ld = [ld_coxia ld, ld_femur ld, ld_tibia ld]"

definition distanceFromGround :: "VirtualHexapod \<Rightarrow> error + real" where
  "distanceFromGround this =
     (case body this of None \<Rightarrow> Inl TypeError | Some b \<Rightarrow> Inr (vz (cog b)))"

definition cogProjection :: "VirtualHexapod \<Rightarrow> error + Vector" where
  "cogProjection this =
     (case body this of None \<Rightarrow> Inl TypeError
      | Some b \<Rightarrow> Inr (Vector_new (vx (cog b)) (vy (cog b)) 0 ''centerOfGravityProjectionPoint''))"

definition hasTwisted :: "VirtualHexapod \<Rightarrow> bool" where
  "hasTwisted this = (twistAngle this \<noteq> 0)"

text \<open>The private method \<^verbatim>\<open>_twist\<close>.\<close>

definition twist :: "Collaborators \<Rightarrow> VirtualHexapod \<Rightarrow> error + VirtualHexapod" where
  "twist env this =
     (let twistMatrix = tRotZmatrix env (twistAngle this) in
      case (legs this, body this, groundContactPoints this, localAxes this) of
        (Some ls, Some b, Some points, Some axes) \<Rightarrow>
          Inr (this\<lparr>legs := Some (map (\<lambda>leg. Linkage_cloneTrot leg twistMatrix) ls),
                    body := Some (Hexagon_cloneTrot b twistMatrix),
                    groundContactPoints :=
                      Some (map (\<lambda>point. Vector_cloneTrot point twistMatrix) points),
                    localAxes := Some (transformLocalAxes axes twistMatrix)\<rparr>)
      | _ \<Rightarrow> Inl TypeError)"

text \<open>The private method \<^verbatim>\<open>_danglingHexapod\<close>.\<close>

definition danglingHexapod ::
  "VirtualHexapod \<Rightarrow> Hexagon \<Rightarrow> Linkage list \<Rightarrow> bool \<Rightarrow> VirtualHexapod" where
  "danglingHexapod this b ls shifted =
     (let transformMatrix = identity4;
          this1 = this\<lparr>localAxes := Some (computeLocalAxes transformMatrix),
                      groundContactPoints := Some []\<rparr>
      in if \<not> shifted then this1\<lparr>body := Some b, legs := Some ls\<rparr>
         else
           let h = foldl (\<lambda>h dim. h + dim) 0 (LegDimensions_values (legDimensions this1))
           in this1\<lparr>body := Some (Hexagon_cloneTrotShift b identity4 0 0 h),
                    legs := Some (map (\<lambda>leg. Linkage_cloneTrotShift leg identity4 0 0 h) ls)\<rparr>)"

text \<open>
  The constructor. Its first statement, \<^verbatim>\<open>Object.assign(this, { dimensions, pose,
  twistAngle: 0 })\<close>, leaves every other field unassigned.
\<close>

definition init_this :: "Dimensions \<Rightarrow> Pose \<Rightarrow> VirtualHexapod" where
  "init_this dims p =
     \<lparr>dimensions = dims, pose = p, twistAngle = 0, legs = None, body = None,
      localAxes = None, groundContactPoints = None\<rparr>"

text \<open>
  Step 2 of the constructor (lines 142 to 158 of the source): rotate and shift legs and body
  to the solved orientation.
\<close>

definition constructor_step2 ::
  "Collaborators \<Rightarrow> VirtualHexapod \<Rightarrow> Hexagon \<Rightarrow> Linkage list \<Rightarrow> Solved \<Rightarrow> VirtualHexapod" where
  "constructor_step2 env this flatHexagon legsNoGravity solved =
     (let transformMatrix = matrixToAlignVectorAtoB env (nAxis solved) (zAxis WORLD_AXES)
      in this\<lparr>legs := Some (map (\<lambda>leg. Linkage_cloneTrotShift leg transformMatrix 0 0
                                         (height solved)) legsNoGravity),
               body := Some (Hexagon_cloneTrotShift flatHexagon transformMatrix 0 0
                               (height solved)),
               localAxes := Some (computeLocalAxes transformMatrix),
               groundContactPoints :=
                 Some (map (\<lambda>leg. Vector_cloneTrotShift (maybeGroundContactPoint leg)
                                     transformMatrix 0 0 (height solved))
                         (groundLegsNoGravity solved))\<rparr>)"

text \<open>
  Step 3 of the constructor (lines 165 to 186 of the source): twist around the z axis.
\<close>

definition constructor_step3 ::
  "Collaborators \<Rightarrow> VirtualHexapod \<Rightarrow> Hexagon \<Rightarrow> Solved \<Rightarrow> error + VirtualHexapod" where
  "constructor_step3 env this flatHexagon solved =
     (let this1 = this\<lparr>twistAngle := simpleTwist env (groundLegsNoGravity solved)\<rparr>
      in case (if twistAngle this1 \<noteq> 0 then twist env this1 else Inr this1) of
           Inl e \<Rightarrow> Inl e
         | Inr this2 \<Rightarrow>
             if mightTwist env (groundLegsNoGravity solved) then
               let oldPoints = map maybeGroundContactPoint
                                 (buildLegsList env (verticesList flatHexagon)
                                    (DEFAULT_POSE env) (legDimensions this2));
                   newPoints = map maybeGroundContactPoint (groundLegsNoGravity solved)
               in twist env (this2\<lparr>twistAngle := complexTwist env oldPoints newPoints\<rparr>)
             else Inr this2)"

text \<open>\<^verbatim>\<open>this.legs.every(leg => leg.pose.alpha === 0)\<close>; an unassigned \<open>legs\<close> raises.\<close>

definition every_alpha_zero :: "VirtualHexapod \<Rightarrow> error + bool" where
  "every_alpha_zero this =
     (case legs this of None \<Rightarrow> Inl TypeError
      | Some ls \<Rightarrow> Inr (list_all (\<lambda>leg. alpha (leg_pose leg) = 0) ls))"

definition constructor ::
  "Collaborators \<Rightarrow> Dimensions \<Rightarrow> Pose \<Rightarrow> Flags \<Rightarrow> error + VirtualHexapod" where
  "constructor env dims p flags =
     (let this = init_this dims p
      in if hasNoPoints flags then Inr this
         else
           let flatHexagon = Hexagon_new env (bodyDimensions this);
               legsNoGravity = buildLegsList env (verticesList flatHexagon) (pose this)
                                 (legDimensions this)
           in if noGravity flags
              then Inr (danglingHexapod this flatHexagon legsNoGravity (shiftedUp flags))
              else
                case computeOrientationProperties env legsNoGravity of
                  None \<Rightarrow> Inr (danglingHexapod this flatHexagon legsNoGravity (shiftedUp flags))
                | Some solved \<Rightarrow>
                    (let this1 = constructor_step2 env this flatHexagon legsNoGravity solved
                     in case every_alpha_zero this1 of
                          Inl e \<Rightarrow> Inl e
                        | Inr allZero \<Rightarrow>
                            if allZero then Inr this1
                            else constructor_step3 env this1 flatHexagon solved))"

text \<open>The flags \<^verbatim>\<open>{ hasNoPoints: true }\<close> the clone methods pass: a missing flag is falsy.\<close>

definition hasNoPoints_flags :: Flags where
  "hasNoPoints_flags = \<lparr>noGravity = False, shiftedUp = False, hasNoPoints = True\<rparr>"

definition cloneTrot :: "Collaborators \<Rightarrow> VirtualHexapod \<Rightarrow> matrix \<Rightarrow> error + VirtualHexapod" where
  "cloneTrot env this transformMatrix =
     (case constructor env (dimensions this) (pose this) hasNoPoints_flags of
        Inl e \<Rightarrow> Inl e
      | Inr clone \<Rightarrow>
          (case (body this, legs this, groundContactPoints this, localAxes this) of
             (Some b, Some ls, Some points, Some axes) \<Rightarrow>
               Inr (clone\<lparr>body := Some (Hexagon_cloneTrot b transformMatrix),
                          legs := Some (map (\<lambda>leg. Linkage_cloneTrot leg transformMatrix) ls),
                          groundContactPoints :=
                            Some (map (\<lambda>point. Vector_cloneTrot point transformMatrix) points),
                          localAxes := Some (transformLocalAxes axes transformMatrix)\<rparr>)
           | _ \<Rightarrow> Inl TypeError))"

definition cloneShift ::
  "Collaborators \<Rightarrow> VirtualHexapod \<Rightarrow> real \<Rightarrow> real \<Rightarrow> real \<Rightarrow> error + VirtualHexapod" where
  "cloneShift env this tx ty tz =
     (case constructor env (dimensions this) (pose this) hasNoPoints_flags of
        Inl e \<Rightarrow> Inl e
      | Inr clone \<Rightarrow>
          (case (body this, legs this, groundContactPoints this) of
             (Some b, Some ls, Some points) \<Rightarrow>
               Inr (clone\<lparr>body := Some (Hexagon_cloneShift b tx ty tz),
                          legs := Some (map (\<lambda>leg. Linkage_cloneShift leg tx ty tz) ls),
                          groundContactPoints :=
                            Some (map (\<lambda>point. Vector_cloneShift point tx ty tz) points),
                          localAxes := localAxes this\<rparr>)
           | _ \<Rightarrow> Inl TypeError))"

subsection \<open>cloneShift on a store of objects\<close>

text \<open>
  To say what \<^verbatim>\<open>cloneShift\<close> does to the object it is called on, the method is also
  modelled statement by statement on a store: a list of objects, a reference being an
  index. \<^verbatim>\<open>new\<close> appends the object the constructor builds and returns its index; an
  assignment \<^verbatim>\<open>clone.f = e\<close> updates the object at \<open>clone\<close>; every read of \<^verbatim>\<open>this.f\<close> looks
  \<open>this\<close> up in the current store.
\<close>

type_synonym ref = nat
type_synonym heap = "VirtualHexapod list"

definition heap_new :: "heap \<Rightarrow> VirtualHexapod \<Rightarrow> heap \<times> ref" where
  "heap_new h obj = (h @ [obj], length h)"

definition heap_get :: "heap \<Rightarrow> ref \<Rightarrow> error + VirtualHexapod" where
  "heap_get h r = (case at_index h r of None \<Rightarrow> Inl TypeError | Some obj \<Rightarrow> Inr obj)"

definition heap_set :: "heap \<Rightarrow> ref \<Rightarrow> (VirtualHexapod \<Rightarrow> VirtualHexapod) \<Rightarrow> heap" where
  "heap_set h r f = (if r < length h then h[r := f (h ! r)] else h)"

text \<open>
  \<^verbatim>\<open>this.f.m(...)\<close>: the field \<open>f\<close> of the object at \<open>r\<close>, a \<^verbatim>\<open>TypeError\<close> when it is
  unassigned.
\<close>

definition get_field :: "heap \<Rightarrow> ref \<Rightarrow> (VirtualHexapod \<Rightarrow> 'a option) \<Rightarrow> error + 'a" where
  "get_field h r field =
     (case heap_get h r of
        Inl e \<Rightarrow> Inl e
      | Inr obj \<Rightarrow> (case field obj of None \<Rightarrow> Inl TypeError | Some v \<Rightarrow> Inr v))"

text \<open>Sequencing: the first error ends the method.\<close>

definition and_then :: "error + 'a \<Rightarrow> ('a \<Rightarrow> error + 'b) \<Rightarrow> error + 'b" where
  "and_then r f = (case r of Inl e \<Rightarrow> Inl e | Inr v \<Rightarrow> f v)"

text \<open>The method \<^verbatim>\<open>cloneShift\<close> (lines 229 to 238 of the source) on the store.\<close>

definition cloneShift_on_heap ::
  "Collaborators \<Rightarrow> heap \<Rightarrow> ref \<Rightarrow> real \<Rightarrow> real \<Rightarrow> real \<Rightarrow> error + heap \<times> ref" where
  "cloneShift_on_heap env h this tx ty tz =
     and_then (heap_get h this) (\<lambda>self.
     and_then (constructor env (dimensions self) (pose self) hasNoPoints_flags) (\<lambda>obj.
       case heap_new h obj of (h1, clone) \<Rightarrow>
     and_then (get_field h1 this body) (\<lambda>b.
       let h2 = heap_set h1 clone (\<lambda>c. c\<lparr>body := Some (Hexagon_cloneShift b tx ty tz)\<rparr>) in
     and_then (get_field h2 this legs) (\<lambda>ls.
       let h3 = heap_set h2 clone
                  (\<lambda>c. c\<lparr>legs := Some (map (\<lambda>leg. Linkage_cloneShift leg tx ty tz) ls)\<rparr>) in
     and_then (get_field h3 this groundContactPoints) (\<lambda>points.
       let h4 = heap_set h3 clone
                  (\<lambda>c. c\<lparr>groundContactPoints :=
                          Some (map (\<lambda>point. Vector_cloneShift point tx ty tz) points)\<rparr>) in
     and_then (heap_get h4 this) (\<lambda>self'.
       let h5 = heap_set h4 clone (\<lambda>c. c\<lparr>localAxes := localAxes self'\<rparr>)
       in Inr (h5, clone)))))))"

subsection \<open>States of the pipeline\<close>

text \<open>
  The flat body and the flat legs the constructor builds first (lines 121 to 125 of the
  source), as functions of its arguments.
\<close>

definition flatHexagon_of :: "Collaborators \<Rightarrow> Dimensions \<Rightarrow> Pose \<Rightarrow> Hexagon" where
  "flatHexagon_of env dims p = Hexagon_new env (bodyDimensions (init_this dims p))"

definition legsNoGravity_of :: "Collaborators \<Rightarrow> Dimensions \<Rightarrow> Pose \<Rightarrow> Linkage list" where
  "legsNoGravity_of env dims p =
     buildLegsList env (verticesList (flatHexagon_of env dims p)) p
       (legDimensions (init_this dims p))"

text \<open>What the orientation solver returns on the flat legs of the arguments.\<close>

definition solved_of :: "Collaborators \<Rightarrow> Dimensions \<Rightarrow> Pose \<Rightarrow> Solved option" where
  "solved_of env dims p = computeOrientationProperties env (legsNoGravity_of env dims p)"

text \<open>The stance after step 2, before any twist.\<close>

definition aligned_of :: "Collaborators \<Rightarrow> Dimensions \<Rightarrow> Pose \<Rightarrow> Solved \<Rightarrow> VirtualHexapod" where
  "aligned_of env dims p solved =
     constructor_step2 env (init_this dims p) (flatHexagon_of env dims p)
       (legsNoGravity_of env dims p) solved"

text \<open>
  Modelled from the spec: the orientation solver (\<^verbatim>\<open>./solvers/orientSolverSpecific\<close>) is
  missing from the sources. Section 4.3 of the spec gives its contract: a stable result
  names 3 to 6 ground legs.
\<close>

definition groundLegs_contract :: "Solved option \<Rightarrow> bool" where
  "groundLegs_contract r =
     (case r of None \<Rightarrow> True
      | Some solved \<Rightarrow> 3 \<le> length (groundLegsNoGravity solved)
                        \<and> length (groundLegsNoGravity solved) \<le> 6)"

text \<open>A resolved stance: one that holds its geometry.\<close>

definition resolved :: "VirtualHexapod \<Rightarrow> bool" where
  "resolved s = (body s \<noteq> None \<and> legs s \<noteq> None \<and> groundContactPoints s \<noteq> None
                 \<and> localAxes s \<noteq> None)"

text \<open>
  The stances a caller can reach: those constructed with geometry (the Done stances and
  both Dangling variants) and their clones.
\<close>

inductive reachable :: "Collaborators \<Rightarrow> VirtualHexapod \<Rightarrow> bool" for env where
  constructed: "constructor env dims p flags = Inr s \<Longrightarrow> \<not> hasNoPoints flags \<Longrightarrow> reachable env s"
| trot: "reachable env s \<Longrightarrow> cloneTrot env s m = Inr c \<Longrightarrow> reachable env c"
| shift: "reachable env s \<Longrightarrow> cloneShift env s tx ty tz = Inr c \<Longrightarrow> reachable env c"

text \<open>The world unit axes under the names the local axes carry.\<close>

definition unit_axes :: Axes where
  "unit_axes =
     \<lparr>xAxis = \<lparr>vx = 1, vy = 0, vz = 0, vname = ''hexapodXaxis'', vid = ''no-id''\<rparr>,
      yAxis = \<lparr>vx = 0, vy = 1, vz = 0, vname = ''hexapodYaxis'', vid = ''no-id''\<rparr>,
      zAxis = \<lparr>vx = 0, vy = 0, vz = 1, vname = ''hexapodZaxis'', vid = ''no-id''\<rparr>\<rparr>"

subsection \<open>A concrete scenario\<close>

text \<open>
  Collaborators for running the constructor on concrete inputs. The body is the flat
  hexagon at height 0; each leg hangs straight down from its vertex by the length of the
  tibia; the solver puts all legs on the ground with the normal already vertical; the
  z-rotation is the standard one, in radians; both twist solvers answer a half turn.
\<close>

definition scenario_Hexagon :: "BodyDimensions \<Rightarrow> Hexagon" where
  "scenario_Hexagon bd =
     \<lparr>hex_dimensions = bd,
      verticesList =
        [Vector_new (bd_middle bd) 0 0 ''rightMiddleVertex'',
         Vector_new (bd_front bd) (bd_side bd) 0 ''rightFrontVertex'',
         Vector_new (- bd_front bd) (bd_side bd) 0 ''leftFrontVertex'',
         Vector_new (- bd_middle bd) 0 0 ''leftMiddleVertex'',
         Vector_new (- bd_front bd) (- bd_side bd) 0 ''leftBackVertex'',
         Vector_new (bd_front bd) (- bd_side bd) 0 ''rightBackVertex''],
      head = Vector_new 0 (bd_side bd) 0 ''headPoint'',
      cog = Vector_new 0 0 0 ''centerOfGravityPoint''\<rparr>"

definition scenario_kinematics ::
  "LegDimensions \<Rightarrow> string \<Rightarrow> Vector option \<Rightarrow> Angles \<Rightarrow> Vector list \<times> Vector" where
  "scenario_kinematics ld pos vertex angles =
     (case vertex of
        None \<Rightarrow> ([], Vector_new 0 0 0 ''footTipPoint'')
      | Some v \<Rightarrow>
          (let foot = Vector_new (vx v) (vy v) (- ld_tibia ld) ''footTipPoint''
           in ([v, foot], foot)))"

definition scenario_solver :: "Linkage list \<Rightarrow> Solved option" where
  "scenario_solver ls =
     (case ls of
        [] \<Rightarrow> None
      | leg # _ \<Rightarrow>
          Some \<lparr>nAxis = Vector_new 0 0 1 ''normalVector'',
                height = - vz (maybeGroundContactPoint leg),
                groundLegsNoGravity = ls\<rparr>)"

definition tRotZmatrix_radians :: "real \<Rightarrow> matrix" where
  "tRotZmatrix_radians theta =
     ((cos theta, - sin theta, 0, 0), (sin theta, cos theta, 0, 0), (0, 0, 1, 0), (0, 0, 0, 1))"

definition scenario :: Collaborators where
  "scenario =
     \<lparr>Hexagon_new = scenario_Hexagon,
      forwardKinematics = scenario_kinematics,
      POSITION_NAMES_LIST =
        [''rightMiddle'', ''rightFront'', ''leftFront'', ''leftMiddle'', ''leftBack'',
         ''rightBack''],
      DEFAULT_POSE = (\<lambda>pos. \<lparr>alpha = 0, beta = 0, gamma = 0\<rparr>),
      computeOrientationProperties = scenario_solver,
      simpleTwist = (\<lambda>ls. pi),
      mightTwist = (\<lambda>ls. True),
      complexTwist = (\<lambda>oldPoints newPoints. pi),
      matrixToAlignVectorAtoB = (\<lambda>a b. identity4),
      tRotZmatrix = tRotZmatrix_radians\<rparr>"

text \<open>The same collaborators with a solver that finds no stable support.\<close>

definition scenario_unstable :: Collaborators where
  "scenario_unstable = scenario\<lparr>computeOrientationProperties := (\<lambda>ls. None)\<rparr>"

definition scenario_dimensions :: Dimensions where
  "scenario_dimensions =
     \<lparr>front = 100, side = 100, middle = 100, coxia = 50, femur = 80, tibia = 130\<rparr>"

definition pose_flat :: Pose where
  "pose_flat = (\<lambda>pos. \<lparr>alpha = 0, beta = 0, gamma = 0\<rparr>)"

definition pose_turned :: Pose where
  "pose_turned = (\<lambda>pos. \<lparr>alpha = 1, beta = 0, gamma = 0\<rparr>)"

definition default_flags :: Flags where
  "default_flags = \<lparr>noGravity = False, shiftedUp = False, hasNoPoints = False\<rparr>"

text \<open>
  What the scenario's solver returns for a pose, the stance the scenario reaches after
  step 2 for the turned pose, and the stance it reaches with gravity switched off and the
  body shifted up.
\<close>

definition scenario_solved :: "Pose \<Rightarrow> Solved" where
  "scenario_solved p =
     \<lparr>nAxis = Vector_new 0 0 1 ''normalVector'', height = 130,
      groundLegsNoGravity = legsNoGravity_of scenario scenario_dimensions p\<rparr>"

definition aligned_stance :: VirtualHexapod where
  "aligned_stance =
     aligned_of scenario scenario_dimensions pose_turned (scenario_solved pose_turned)"

definition shifted_flags :: Flags where
  "shifted_flags = \<lparr>noGravity = True, shiftedUp = True, hasNoPoints = False\<rparr>"

definition dangling_stance :: VirtualHexapod where
  "dangling_stance =
     danglingHexapod (init_this scenario_dimensions pose_turned)
       (flatHexagon_of scenario scenario_dimensions pose_turned)
       (legsNoGravity_of scenario scenario_dimensions pose_turned) True"

section \<open>Auxiliary lemmas\<close>

subsection \<open>Identity transforms\<close>

lemma Vector_cloneShift_zero: "Vector_cloneShift v 0 0 0 = v"
  by (simp add: Vector_cloneShift_def)

lemma Vector_cloneTrot_identity: "Vector_cloneTrot v identity4 = v"
  by (simp add: Vector_cloneTrot_def Vector_trot_def identity4_def)

lemma Vector_cloneTrotShift_identity:
  "Vector_cloneTrotShift v identity4 tx ty tz = Vector_cloneShift v tx ty tz"
  by (simp add: Vector_cloneTrotShift_def Vector_cloneTrot_identity)

lemma Hexagon_cloneShift_zero: "Hexagon_cloneShift h 0 0 0 = h"
  by (simp add: Hexagon_cloneShift_def Vector_cloneShift_zero)

lemma Linkage_cloneShift_zero: "Linkage_cloneShift leg 0 0 0 = leg"
  by (simp add: Linkage_cloneShift_def Vector_cloneShift_zero)

lemma Hexagon_cloneTrot_identity: "Hexagon_cloneTrot h identity4 = h"
  by (simp add: Hexagon_cloneTrot_def Vector_cloneTrot_identity)

lemma Linkage_cloneTrot_identity: "Linkage_cloneTrot leg identity4 = leg"
  by (simp add: Linkage_cloneTrot_def Vector_cloneTrot_identity)

lemma Hexagon_cloneTrotShift_identity:
  "Hexagon_cloneTrotShift h identity4 tx ty tz = Hexagon_cloneShift h tx ty tz"
  by (simp add: Hexagon_cloneTrotShift_def Hexagon_cloneShift_def Vector_cloneTrotShift_identity)

lemma Linkage_cloneTrotShift_identity:
  "Linkage_cloneTrotShift leg identity4 tx ty tz = Linkage_cloneShift leg tx ty tz"
  by (simp add: Linkage_cloneTrotShift_def Linkage_cloneShift_def Vector_cloneTrotShift_identity)

lemma computeLocalAxes_identity: "computeLocalAxes identity4 = unit_axes"
  by (simp add: computeLocalAxes_def unit_axes_def WORLD_AXES_def Vector_newTrot_def
      Vector_trot_def Vector_new_def identity4_def)

lemma transformLocalAxes_identity: "transformLocalAxes axes identity4 = axes"
  by (simp add: transformLocalAxes_def Vector_cloneTrot_identity)

subsection \<open>The empty shell and the Dangling fallback\<close>

lemma constructor_shell: "constructor env dims p hasNoPoints_flags = Inr (init_this dims p)"
  by (simp add: constructor_def hasNoPoints_flags_def)

lemma danglingHexapod_flat:
  "danglingHexapod this b ls False =
     this\<lparr>localAxes := Some unit_axes, groundContactPoints := Some [], body := Some b,
          legs := Some ls\<rparr>"
  by (simp add: danglingHexapod_def computeLocalAxes_identity)

lemma danglingHexapod_shifted:
  "danglingHexapod this b ls True =
     this\<lparr>localAxes := Some unit_axes, groundContactPoints := Some [],
          body := Some (Hexagon_cloneShift b 0 0
                   (coxia (dimensions this) + femur (dimensions this) + tibia (dimensions this))),
          legs := Some (map (\<lambda>leg. Linkage_cloneShift leg 0 0
                   (coxia (dimensions this) + femur (dimensions this) + tibia (dimensions this)))
                   ls)\<rparr>"
  by (simp add: danglingHexapod_def Let_def computeLocalAxes_identity LegDimensions_values_def
      legDimensions_def Hexagon_cloneTrotShift_identity Linkage_cloneTrotShift_identity)

lemma constructor_dangling:
  assumes "\<not> hasNoPoints flags" and "noGravity flags \<or> solved_of env dims p = None"
  shows "constructor env dims p flags =
           Inr (danglingHexapod (init_this dims p) (flatHexagon_of env dims p)
                  (legsNoGravity_of env dims p) (shiftedUp flags))"
  using assms
  by (auto simp: constructor_def Let_def solved_of_def legsNoGravity_of_def flatHexagon_of_def
      init_this_def)

lemma resolved_dangling: "resolved (danglingHexapod this b ls shifted)"
  by (simp add: resolved_def danglingHexapod_def Let_def)

subsection \<open>The success path\<close>

lemma step2_fields:
  "legs (constructor_step2 env this h ls solved) =
     Some (map (\<lambda>leg. Linkage_cloneTrotShift leg
                  (matrixToAlignVectorAtoB env (nAxis solved) (zAxis WORLD_AXES)) 0 0
                  (height solved)) ls)"
  "body (constructor_step2 env this h ls solved) =
     Some (Hexagon_cloneTrotShift h
             (matrixToAlignVectorAtoB env (nAxis solved) (zAxis WORLD_AXES)) 0 0
             (height solved))"
  "groundContactPoints (constructor_step2 env this h ls solved) =
     Some (map (\<lambda>leg. Vector_cloneTrotShift (maybeGroundContactPoint leg)
                  (matrixToAlignVectorAtoB env (nAxis solved) (zAxis WORLD_AXES)) 0 0
                  (height solved)) (groundLegsNoGravity solved))"
  "localAxes (constructor_step2 env this h ls solved) =
     Some (computeLocalAxes (matrixToAlignVectorAtoB env (nAxis solved) (zAxis WORLD_AXES)))"
  "twistAngle (constructor_step2 env this h ls solved) = twistAngle this"
  "dimensions (constructor_step2 env this h ls solved) = dimensions this"
  "pose (constructor_step2 env this h ls solved) = pose this"
  by (simp_all add: constructor_step2_def Let_def)

lemma constructor_solved:
  assumes "\<not> hasNoPoints flags" and "\<not> noGravity flags"
    and "solved_of env dims p = Some solved"
  shows "constructor env dims p flags =
           (if list_all (\<lambda>leg. alpha (leg_pose leg) = 0) (legsNoGravity_of env dims p)
            then Inr (aligned_of env dims p solved)
            else constructor_step3 env (aligned_of env dims p solved)
                   (flatHexagon_of env dims p) solved)"
proof -
  have "every_alpha_zero (aligned_of env dims p solved) =
          Inr (list_all (\<lambda>leg. alpha (leg_pose leg) = 0) (legsNoGravity_of env dims p))"
    by (simp add: every_alpha_zero_def aligned_of_def step2_fields list_all_iff
        Linkage_cloneTrotShift_def)
  then show ?thesis
    using assms
    by (simp add: constructor_def Let_def solved_of_def legsNoGravity_of_def
        flatHexagon_of_def aligned_of_def init_this_def)
qed

lemma leg_pose_Linkage_new: "leg_pose (Linkage_new env ld pos v a) = a"
  by (simp add: Linkage_new_def split: prod.splits)

lemma buildLegsList_alpha:
  "list_all (\<lambda>leg. alpha (leg_pose leg) = 0) (buildLegsList env vs p ld) =
     (\<forall>pos \<in> set (POSITION_NAMES_LIST env). alpha (p pos) = 0)"
proof -
  have "list_all (\<lambda>leg. alpha (leg_pose leg) = 0)
          (map (\<lambda>(index, pos). Linkage_new env ld pos (at_index vs index) (p pos))
             (enumerate n names)) =
        (\<forall>pos \<in> set names. alpha (p pos) = 0)" for n names
    by (induction names arbitrary: n) (simp_all add: leg_pose_Linkage_new)
  then show ?thesis by (simp add: buildLegsList_def)
qed

lemma resolved_twist:
  assumes "resolved this"
  shows "\<exists>s. twist env this = Inr s \<and> resolved s
           \<and> map_option length (groundContactPoints s)
               = map_option length (groundContactPoints this)
           \<and> twistAngle s = twistAngle this"
  using assms by (auto simp: resolved_def twist_def Let_def)

lemma resolved_step3:
  assumes "resolved this"
  shows "\<exists>s. constructor_step3 env this h solved = Inr s \<and> resolved s
           \<and> map_option length (groundContactPoints s)
               = map_option length (groundContactPoints this)"
proof -
  let ?this1 = "this\<lparr>twistAngle := simpleTwist env (groundLegsNoGravity solved)\<rparr>"
  have r1: "resolved ?this1" using assms by (simp add: resolved_def)
  obtain this2 where t2:
      "(if twistAngle ?this1 \<noteq> 0 then twist env ?this1 else Inr ?this1) = Inr this2"
      and r2: "resolved this2"
      and l2: "map_option length (groundContactPoints this2)
                 = map_option length (groundContactPoints this)"
  proof (cases "twistAngle ?this1 \<noteq> 0")
    case True
    with resolved_twist [OF r1, of env] that show ?thesis by auto
  next
    case False
    with r1 that [of ?this1] show ?thesis by simp
  qed
  show ?thesis
  proof (cases "mightTwist env (groundLegsNoGravity solved)")
    case False
    with t2 r2 l2 show ?thesis by (simp add: constructor_step3_def Let_def)
  next
    case True
    let ?this3 = "this2\<lparr>twistAngle := complexTwist env
        (map maybeGroundContactPoint
           (buildLegsList env (verticesList h) (DEFAULT_POSE env) (legDimensions this2)))
        (map maybeGroundContactPoint (groundLegsNoGravity solved))\<rparr>"
    have r3: "resolved ?this3" using r2 by (simp add: resolved_def)
    from resolved_twist [OF r3, of env] obtain s where
      "twist env ?this3 = Inr s" "resolved s"
      "map_option length (groundContactPoints s)
         = map_option length (groundContactPoints ?this3)"
      by blast
    with True t2 l2 show ?thesis by (simp add: constructor_step3_def Let_def)
  qed
qed

lemma resolved_aligned: "resolved (aligned_of env dims p solved)"
  by (simp add: resolved_def aligned_of_def step2_fields)

lemma constructor_success_path:
  assumes "\<not> hasNoPoints flags" and "\<not> noGravity flags"
    and "solved_of env dims p = Some solved"
  shows "\<exists>s. constructor env dims p flags = Inr s \<and> resolved s
           \<and> map_option length (groundContactPoints s)
               = Some (length (groundLegsNoGravity solved))"
proof -
  have len: "map_option length (groundContactPoints (aligned_of env dims p solved))
               = Some (length (groundLegsNoGravity solved))"
    by (simp add: aligned_of_def step2_fields)
  show ?thesis
  proof (cases "list_all (\<lambda>leg. alpha (leg_pose leg) = 0) (legsNoGravity_of env dims p)")
    case True
    with assms len show ?thesis by (simp add: constructor_solved resolved_aligned)
  next
    case False
    from resolved_step3 [OF resolved_aligned, of env env dims p solved
        "flatHexagon_of env dims p" solved]
    obtain s where
      "constructor_step3 env (aligned_of env dims p solved) (flatHexagon_of env dims p) solved
         = Inr s"
      "resolved s"
      "map_option length (groundContactPoints s)
         = map_option length (groundContactPoints (aligned_of env dims p solved))"
      by blast
    with False assms len show ?thesis by (auto simp: constructor_solved)
  qed
qed

lemma constructor_both_twists:
  assumes "\<not> hasNoPoints flags" and "\<not> noGravity flags"
    and "solved_of env dims p = Some solved"
    and "\<not> list_all (\<lambda>leg. alpha (leg_pose leg) = 0) (legsNoGravity_of env dims p)"
    and "simpleTwist env (groundLegsNoGravity solved) \<noteq> 0"
    and "mightTwist env (groundLegsNoGravity solved)"
    and "legs (aligned_of env dims p solved) = Some ls"
    and "body (aligned_of env dims p solved) = Some b"
    and "groundContactPoints (aligned_of env dims p solved) = Some points"
    and "localAxes (aligned_of env dims p solved) = Some axes"
    and "rs = tRotZmatrix env (simpleTwist env (groundLegsNoGravity solved))"
    and "ct = complexTwist env
                (map maybeGroundContactPoint
                   (buildLegsList env (verticesList (flatHexagon_of env dims p))
                      (DEFAULT_POSE env) (legDimensions (init_this dims p))))
                (map maybeGroundContactPoint (groundLegsNoGravity solved))"
    and "rc = tRotZmatrix env ct"
  shows "constructor env dims p flags =
           Inr ((aligned_of env dims p solved)
                  \<lparr>twistAngle := ct,
                   legs := Some (map (\<lambda>leg. Linkage_cloneTrot leg rc)
                                   (map (\<lambda>leg. Linkage_cloneTrot leg rs) ls)),
                   body := Some (Hexagon_cloneTrot (Hexagon_cloneTrot b rs) rc),
                   groundContactPoints :=
                     Some (map (\<lambda>point. Vector_cloneTrot point rc)
                             (map (\<lambda>point. Vector_cloneTrot point rs) points)),
                   localAxes := Some (transformLocalAxes (transformLocalAxes axes rs) rc)\<rparr>)"
proof -
  have dims: "dimensions (aligned_of env dims p solved) = dims"
    by (simp add: aligned_of_def step2_fields init_this_def)
  have "constructor env dims p flags =
          constructor_step3 env (aligned_of env dims p solved) (flatHexagon_of env dims p) solved"
    using assms(1-4) by (simp add: constructor_solved)
  also have "\<dots> = Inr ((aligned_of env dims p solved)
                  \<lparr>twistAngle := ct,
                   legs := Some (map (\<lambda>leg. Linkage_cloneTrot leg rc)
                                   (map (\<lambda>leg. Linkage_cloneTrot leg rs) ls)),
                   body := Some (Hexagon_cloneTrot (Hexagon_cloneTrot b rs) rc),
                   groundContactPoints :=
                     Some (map (\<lambda>point. Vector_cloneTrot point rc)
                             (map (\<lambda>point. Vector_cloneTrot point rs) points)),
                   localAxes := Some (transformLocalAxes (transformLocalAxes axes rs) rc)\<rparr>)"
    using assms(5-13)
    by (simp add: constructor_step3_def twist_def Let_def legDimensions_def dims init_this_def)
  finally show ?thesis .
qed

subsection \<open>Reachable stances\<close>

lemma constructor_resolved:
  assumes "constructor env dims p flags = Inr s" and "\<not> hasNoPoints flags"
  shows "resolved s"
proof (cases "noGravity flags \<or> solved_of env dims p = None")
  case True
  from constructor_dangling [OF assms(2) True] assms(1) show ?thesis
    by (auto simp: resolved_dangling)
next
  case False
  then obtain solved where "solved_of env dims p = Some solved" "\<not> noGravity flags"
    by auto
  from constructor_success_path [OF assms(2) this(2) this(1)] assms(1) show ?thesis
    by auto
qed

lemma cloneTrot_resolved: "cloneTrot env s m = Inr c \<Longrightarrow> resolved c"
  by (auto simp: cloneTrot_def constructor_shell resolved_def init_this_def
      split: option.splits)

lemma cloneShift_resolved: "resolved s \<Longrightarrow> cloneShift env s tx ty tz = Inr c \<Longrightarrow> resolved c"
  by (auto simp: cloneShift_def constructor_shell resolved_def init_this_def
      split: option.splits)

lemma reachable_resolved: "reachable env s \<Longrightarrow> resolved s"
  by (induction rule: reachable.induct)
    (auto intro: constructor_resolved cloneTrot_resolved cloneShift_resolved)

subsection \<open>The object store\<close>

lemma heap_get_old: "r < length h \<Longrightarrow> heap_get (h @ [obj]) r = Inr (h ! r)"
  by (simp add: heap_get_def at_index_def nth_append)

lemma heap_get_in: "r < length h \<Longrightarrow> heap_get h r = Inr (h ! r)"
  by (simp add: heap_get_def at_index_def)

lemma heap_set_new: "heap_set (h @ [obj]) (length h) f = h @ [f obj]"
  by (simp add: heap_set_def)

lemma get_field_old:
  "r < length h \<Longrightarrow> field (h ! r) = Some v \<Longrightarrow> get_field (h @ [obj]) r field = Inr v"
  by (simp add: get_field_def heap_get_old)

lemma cloneShift_on_heap_result:
  assumes "this < length h" and "resolved (h ! this)"
  shows "\<exists>c. cloneShift env (h ! this) tx ty tz = Inr c
           \<and> cloneShift_on_heap env h this tx ty tz = Inr (h @ [c], length h)"
proof -
  from assms(2) obtain b ls points where f:
    "body (h ! this) = Some b" "legs (h ! this) = Some ls"
    "groundContactPoints (h ! this) = Some points"
    by (auto simp: resolved_def)
  have "cloneShift_on_heap env h this tx ty tz =
          Inr (h @ [(init_this (dimensions (h ! this)) (pose (h ! this)))
                      \<lparr>body := Some (Hexagon_cloneShift b tx ty tz),
                       legs := Some (map (\<lambda>leg. Linkage_cloneShift leg tx ty tz) ls),
                       groundContactPoints :=
                         Some (map (\<lambda>point. Vector_cloneShift point tx ty tz) points),
                       localAxes := localAxes (h ! this)\<rparr>], length h)"
    using assms(1) f
    by (simp add: cloneShift_on_heap_def and_then_def heap_get_in constructor_shell heap_new_def
        get_field_old heap_set_new heap_get_old Let_def nth_append)
  moreover have "cloneShift env (h ! this) tx ty tz =
          Inr ((init_this (dimensions (h ! this)) (pose (h ! this)))
                      \<lparr>body := Some (Hexagon_cloneShift b tx ty tz),
                       legs := Some (map (\<lambda>leg. Linkage_cloneShift leg tx ty tz) ls),
                       groundContactPoints :=
                         Some (map (\<lambda>point. Vector_cloneShift point tx ty tz) points),
                       localAxes := localAxes (h ! this)\<rparr>)"
    using f by (simp add: cloneShift_def constructor_shell)
  ultimately show ?thesis by simp
qed

subsection \<open>Evaluating the scenario\<close>

lemma scenario_legs:
  "legsNoGravity_of scenario scenario_dimensions p =
     map (\<lambda>(pos, nm, a, b).
            \<lparr>leg_dimensions = \<lparr>ld_coxia = 50, ld_femur = 80, ld_tibia = 130\<rparr>,
             position = pos, leg_pose = p pos,
             allPointsList = [Vector_new a b 0 nm, Vector_new a b (- 130) ''footTipPoint''],
             maybeGroundContactPoint = Vector_new a b (- 130) ''footTipPoint''\<rparr>)
       [(''rightMiddle'', ''rightMiddleVertex'', 100, 0),
        (''rightFront'', ''rightFrontVertex'', 100, 100),
        (''leftFront'', ''leftFrontVertex'', - 100, 100),
        (''leftMiddle'', ''leftMiddleVertex'', - 100, 0),
        (''leftBack'', ''leftBackVertex'', - 100, - 100),
        (''rightBack'', ''rightBackVertex'', 100, - 100)]"
  by (simp add: legsNoGravity_of_def flatHexagon_of_def buildLegsList_def Linkage_new_def
      at_index_def bodyDimensions_def legDimensions_def init_this_def enumerate_eq_zip
      scenario_def scenario_Hexagon_def scenario_kinematics_def scenario_dimensions_def
      Let_def Vector_new_def)

lemma scenario_solved_of:
  "solved_of scenario scenario_dimensions p = Some (scenario_solved p)"
proof -
  have "computeOrientationProperties scenario = scenario_solver"
    by (simp add: scenario_def)
  then show ?thesis
    unfolding solved_of_def scenario_solved_def
    by (simp add: scenario_legs [of p] scenario_solver_def Vector_new_def)
qed

lemma scenario_unstable_solved_of: "solved_of scenario_unstable dims p = None"
  by (simp add: solved_of_def scenario_unstable_def)

lemma scenario_length: "length (legsNoGravity_of scenario scenario_dimensions p) = 6"
  by (simp add: legsNoGravity_of_def buildLegsList_def scenario_def)

lemma scenario_turned:
  "\<not> list_all (\<lambda>leg. alpha (leg_pose leg) = 0)
       (legsNoGravity_of scenario scenario_dimensions pose_turned)"
  by (simp add: scenario_legs pose_turned_def)

lemma half_turn_twice:
  "Vector_cloneTrot (Vector_cloneTrot v (tRotZmatrix_radians pi)) (tRotZmatrix_radians pi) = v"
  by (simp add: Vector_cloneTrot_def Vector_trot_def tRotZmatrix_radians_def)

lemma half_turn_twice_map:
  "map (\<lambda>v. Vector_cloneTrot v (tRotZmatrix_radians pi))
     (map (\<lambda>v. Vector_cloneTrot v (tRotZmatrix_radians pi)) vs) = vs"
  by (induction vs) (simp_all add: half_turn_twice del: map_map)

lemma half_turn_twice_Linkage:
  "Linkage_cloneTrot (Linkage_cloneTrot leg (tRotZmatrix_radians pi)) (tRotZmatrix_radians pi)
     = leg"
  by (simp add: Linkage_cloneTrot_def half_turn_twice half_turn_twice_map del: map_map)

lemma half_turn_twice_legs:
  "map (\<lambda>leg. Linkage_cloneTrot leg (tRotZmatrix_radians pi))
     (map (\<lambda>leg. Linkage_cloneTrot leg (tRotZmatrix_radians pi)) ls) = ls"
  by (induction ls) (simp_all add: half_turn_twice_Linkage del: map_map)

lemma half_turn_twice_Hexagon:
  "Hexagon_cloneTrot (Hexagon_cloneTrot h (tRotZmatrix_radians pi)) (tRotZmatrix_radians pi) = h"
  by (simp add: Hexagon_cloneTrot_def half_turn_twice half_turn_twice_map del: map_map)

lemma half_turn_twice_Axes:
  "transformLocalAxes (transformLocalAxes axes (tRotZmatrix_radians pi))
     (tRotZmatrix_radians pi) = axes"
  by (simp add: transformLocalAxes_def half_turn_twice)

lemma scenario_constructed:
  "constructor scenario scenario_dimensions pose_turned default_flags =
     Inr (aligned_stance\<lparr>twistAngle := pi\<rparr>)"
proof -
  have env: "simpleTwist scenario = (\<lambda>ls. pi)" "mightTwist scenario = (\<lambda>ls. True)"
    "complexTwist scenario = (\<lambda>oldPoints newPoints. pi)"
    "tRotZmatrix scenario = tRotZmatrix_radians"
    by (simp_all add: scenario_def)
  obtain ls b points axes where fields:
    "legs aligned_stance = Some ls" "body aligned_stance = Some b"
    "groundContactPoints aligned_stance = Some points" "localAxes aligned_stance = Some axes"
    using resolved_aligned [of scenario scenario_dimensions pose_turned
        "scenario_solved pose_turned"]
    by (auto simp: aligned_stance_def resolved_def)
  have "constructor scenario scenario_dimensions pose_turned default_flags =
          Inr (aligned_stance
                 \<lparr>twistAngle := pi,
                  legs := Some (map (\<lambda>leg. Linkage_cloneTrot leg (tRotZmatrix_radians pi))
                            (map (\<lambda>leg. Linkage_cloneTrot leg (tRotZmatrix_radians pi)) ls)),
                  body := Some (Hexagon_cloneTrot
                            (Hexagon_cloneTrot b (tRotZmatrix_radians pi))
                            (tRotZmatrix_radians pi)),
                  groundContactPoints :=
                    Some (map (\<lambda>point. Vector_cloneTrot point (tRotZmatrix_radians pi))
                       (map (\<lambda>point. Vector_cloneTrot point (tRotZmatrix_radians pi)) points)),
                  localAxes := Some (transformLocalAxes
                                 (transformLocalAxes axes (tRotZmatrix_radians pi))
                                 (tRotZmatrix_radians pi))\<rparr>)"
    unfolding aligned_stance_def
    by (rule constructor_both_twists [where solved = "scenario_solved pose_turned"])
      (use fields in \<open>simp_all add: default_flags_def scenario_solved_of scenario_turned env
        aligned_stance_def\<close>)
  also have "\<dots> = Inr (aligned_stance\<lparr>twistAngle := pi\<rparr>)"
    unfolding half_turn_twice_legs half_turn_twice_Hexagon half_turn_twice_map
      half_turn_twice_Axes
    by (simp, rule VirtualHexapod.equality) (simp_all add: fields)
  finally show ?thesis .
qed

lemma scenario_localAxes: "localAxes aligned_stance = Some unit_axes"
proof -
  have "matrixToAlignVectorAtoB scenario = (\<lambda>a b. identity4)"
    by (simp add: scenario_def)
  then show ?thesis
    by (simp add: aligned_stance_def aligned_of_def step2_fields computeLocalAxes_identity)
qed

section \<open>Properties of the stance resolver\<close>

text \<open>
  C1. In the scenario, with the turned pose, the construction is on the success path, the
  simple twist is nonzero (a half turn) and \<open>mightTwist\<close> holds; the complex twist is a half
  turn as well. The constructor applies the second rotation to the geometry the first one
  has already rotated: the result has the geometry of the aligned stance (two half turns)
  and the twist angle \<open>pi\<close>. Rotating the aligned stance by the complex twist alone gives
  another stance: its local axes are turned. Lemma \<open>constructor_both_twists\<close> gives the
  composed result for every input of that path.
\<close>

theorem complex_twist_is_applied_on_top_of_simple_twist:
  "solved_of scenario scenario_dimensions pose_turned = Some (scenario_solved pose_turned)
   \<and> simpleTwist scenario (groundLegsNoGravity (scenario_solved pose_turned)) \<noteq> 0
   \<and> mightTwist scenario (groundLegsNoGravity (scenario_solved pose_turned))
   \<and> constructor scenario scenario_dimensions pose_turned default_flags
       = Inr (aligned_stance\<lparr>twistAngle := pi\<rparr>)
   \<and> twist scenario (aligned_stance\<lparr>twistAngle := pi\<rparr>)
       \<noteq> Inr (aligned_stance\<lparr>twistAngle := pi\<rparr>)"
proof -
  have r: "tRotZmatrix scenario = tRotZmatrix_radians"
    by (simp add: scenario_def)
  obtain s where s: "twist scenario (aligned_stance\<lparr>twistAngle := pi\<rparr>) = Inr s"
    and "localAxes s = Some (transformLocalAxes unit_axes (tRotZmatrix_radians pi))"
    using resolved_aligned [of scenario scenario_dimensions pose_turned
        "scenario_solved pose_turned"] scenario_localAxes
    by (auto simp: twist_def Let_def resolved_def aligned_stance_def r)
  moreover have "transformLocalAxes unit_axes (tRotZmatrix_radians pi) \<noteq> unit_axes"
    by (simp add: transformLocalAxes_def unit_axes_def Vector_cloneTrot_def Vector_trot_def
        tRotZmatrix_radians_def)
  ultimately have "localAxes s \<noteq> localAxes (aligned_stance\<lparr>twistAngle := pi\<rparr>)"
    using scenario_localAxes by simp
  with s have "twist scenario (aligned_stance\<lparr>twistAngle := pi\<rparr>)
                 \<noteq> Inr (aligned_stance\<lparr>twistAngle := pi\<rparr>)"
    by auto
  moreover have "simpleTwist scenario (groundLegsNoGravity (scenario_solved pose_turned)) \<noteq> 0"
    "mightTwist scenario (groundLegsNoGravity (scenario_solved pose_turned))"
    by (simp_all add: scenario_def)
  ultimately show ?thesis
    using scenario_constructed scenario_solved_of by simp
qed

text \<open>
  C2. When the orientation solver returns no value and none of the three flags is set, the
  constructor does not fail: it returns the Dangling stance, with no ground-contact points,
  a twist angle of 0, the world unit axes as local axes, and the body and the legs exactly
  as the flat build made them.
\<close>

theorem unstable_pose_gives_flat_dangling:
  assumes "solved_of env dims p = None"
    and "\<not> noGravity flags" and "\<not> shiftedUp flags" and "\<not> hasNoPoints flags"
  shows "constructor env dims p flags =
           Inr \<lparr>dimensions = dims, pose = p, twistAngle = 0,
                legs = Some (legsNoGravity_of env dims p),
                body = Some (flatHexagon_of env dims p),
                localAxes = Some unit_axes, groundContactPoints = Some []\<rparr>"
  using assms by (simp add: constructor_dangling danglingHexapod_flat init_this_def)

theorem unstable_pose_gives_flat_dangling_witness:
  "solved_of scenario_unstable scenario_dimensions pose_turned = None
   \<and> \<not> noGravity default_flags \<and> \<not> shiftedUp default_flags \<and> \<not> hasNoPoints default_flags
   \<and> constructor scenario_unstable scenario_dimensions pose_turned default_flags =
       Inr \<lparr>dimensions = scenario_dimensions, pose = pose_turned, twistAngle = 0,
            legs = Some (legsNoGravity_of scenario_unstable scenario_dimensions pose_turned),
            body = Some (flatHexagon_of scenario_unstable scenario_dimensions pose_turned),
            localAxes = Some unit_axes, groundContactPoints = Some []\<rparr>"
  using unstable_pose_gives_flat_dangling
    [of scenario_unstable scenario_dimensions pose_turned default_flags]
  by (simp add: solved_of_def scenario_unstable_def default_flags_def)

text \<open>
  C3. Let the orientation solver keep its contract on the flat legs (a stable result has 3
  to 6 ground legs). Then every construction without \<open>hasNoPoints\<close> succeeds with a list of
  ground-contact points whose length is 0, 3, 4, 5 or 6; the length is 0 exactly in the
  Dangling fallback (\<open>noGravity\<close> set, or no value from the solver); and on the success path
  it is the number of ground legs the solver returned.
\<close>

theorem groundContactPoints_count:
  assumes "\<not> hasNoPoints flags" and "groundLegs_contract (solved_of env dims p)"
  shows "\<exists>s points. constructor env dims p flags = Inr s
           \<and> groundContactPoints s = Some points
           \<and> length points \<in> {0, 3, 4, 5, 6}
           \<and> (length points = 0 \<longleftrightarrow> noGravity flags \<or> solved_of env dims p = None)
           \<and> (\<forall>solved. \<not> noGravity flags \<and> solved_of env dims p = Some solved
                 \<longrightarrow> length points = length (groundLegsNoGravity solved))"
proof (cases "noGravity flags \<or> solved_of env dims p = None")
  case True
  with assms(1) have "constructor env dims p flags =
      Inr (danglingHexapod (init_this dims p) (flatHexagon_of env dims p)
             (legsNoGravity_of env dims p) (shiftedUp flags))"
    by (rule constructor_dangling)
  moreover have "groundContactPoints (danglingHexapod this b ls shifted) = Some []"
    for this b ls shifted
    by (simp add: danglingHexapod_def Let_def)
  ultimately show ?thesis using True by auto
next
  case False
  then obtain solved where sol: "solved_of env dims p = Some solved" and ng: "\<not> noGravity flags"
    by auto
  from constructor_success_path [OF assms(1) ng sol] obtain s points where
    s: "constructor env dims p flags = Inr s" "groundContactPoints s = Some points"
       "length points = length (groundLegsNoGravity solved)"
    by auto
  from assms(2) sol have "3 \<le> length (groundLegsNoGravity solved)"
    "length (groundLegsNoGravity solved) \<le> 6"
    by (simp_all add: groundLegs_contract_def)
  then have "length points \<in> {3, 4, 5, 6}" "length points \<noteq> 0"
    using s(3) by auto
  with s sol ng show ?thesis by auto
qed

theorem groundContactPoints_count_witness:
  "\<not> hasNoPoints default_flags
   \<and> groundLegs_contract (solved_of scenario scenario_dimensions pose_turned)
   \<and> (\<exists>s points. constructor scenario scenario_dimensions pose_turned default_flags = Inr s
         \<and> groundContactPoints s = Some points \<and> length points = 6)"
  using groundContactPoints_count [of default_flags scenario scenario_dimensions pose_turned]
  by (auto simp: default_flags_def groundLegs_contract_def scenario_solved_of
      scenario_solved_def scenario_length)

text \<open>
  C4. When the \<open>alpha\<close> angle of every leg of the pose is 0, a construction on the success
  path ends after step 2: the result is the aligned stance, its twist angle is 0, whatever
  the \<open>beta\<close> and \<open>gamma\<close> angles are. The twist solvers and the z-rotation are not consulted:
  replacing them by any others leaves the result unchanged.
\<close>

theorem zero_alpha_never_twists:
  assumes "\<forall>pos \<in> set (POSITION_NAMES_LIST env). alpha (p pos) = 0"
    and "\<not> hasNoPoints flags" and "\<not> noGravity flags"
    and "solved_of env dims p = Some solved"
  shows "constructor env dims p flags = Inr (aligned_of env dims p solved)
         \<and> twistAngle (aligned_of env dims p solved) = 0
         \<and> constructor
             (env\<lparr>simpleTwist := f, mightTwist := g, complexTwist := c, tRotZmatrix := r\<rparr>)
             dims p flags = constructor env dims p flags"
proof -
  let ?env' = "env\<lparr>simpleTwist := f, mightTwist := g, complexTwist := c, tRotZmatrix := r\<rparr>"
  have zero: "list_all (\<lambda>leg. alpha (leg_pose leg) = 0) (legsNoGravity_of env dims p)"
    using assms(1) by (simp add: legsNoGravity_of_def buildLegsList_alpha)
  have flat: "flatHexagon_of ?env' dims p = flatHexagon_of env dims p"
    by (simp add: flatHexagon_of_def)
  have ls: "legsNoGravity_of ?env' dims p = legsNoGravity_of env dims p"
    by (simp add: legsNoGravity_of_def flat buildLegsList_def Linkage_new_def)
  have sol: "solved_of ?env' dims p = Some solved"
    using assms(4) by (simp add: solved_of_def ls)
  have al: "aligned_of ?env' dims p solved = aligned_of env dims p solved"
    by (simp add: aligned_of_def flat ls constructor_step2_def)
  have 1: "constructor env dims p flags = Inr (aligned_of env dims p solved)"
    using assms zero by (simp add: constructor_solved)
  have 2: "constructor ?env' dims p flags = Inr (aligned_of env dims p solved)"
    using assms(2,3) sol zero constructor_solved [of flags ?env' dims p solved]
    by (simp add: ls al)
  have 3: "twistAngle (aligned_of env dims p solved) = 0"
    by (simp add: aligned_of_def step2_fields init_this_def)
  from 1 2 3 show ?thesis by simp
qed

theorem zero_alpha_never_twists_witness:
  "list_all (\<lambda>pos. alpha (pose_flat pos) = 0) (POSITION_NAMES_LIST scenario)
   \<and> \<not> hasNoPoints default_flags \<and> \<not> noGravity default_flags
   \<and> solved_of scenario scenario_dimensions pose_flat = Some (scenario_solved pose_flat)
   \<and> constructor scenario scenario_dimensions pose_flat default_flags
       = Inr (aligned_of scenario scenario_dimensions pose_flat (scenario_solved pose_flat))
   \<and> twistAngle (aligned_of scenario scenario_dimensions pose_flat (scenario_solved pose_flat))
       = 0
   \<and> constructor
       (scenario\<lparr>simpleTwist := (\<lambda>ls. 1), mightTwist := (\<lambda>ls. False),
                 complexTwist := (\<lambda>oldPoints newPoints. 2), tRotZmatrix := (\<lambda>t. identity4)\<rparr>)
       scenario_dimensions pose_flat default_flags
       = constructor scenario scenario_dimensions pose_flat default_flags"
  using zero_alpha_never_twists
    [where env = scenario and p = pose_flat and flags = default_flags
      and dims = scenario_dimensions and solved = "scenario_solved pose_flat"
      and f = "\<lambda>ls. 1" and g = "\<lambda>ls. False" and c = "\<lambda>oldPoints newPoints. 2"
      and r = "\<lambda>t. identity4"]
  by (simp add: pose_flat_def default_flags_def scenario_solved_of list_all_iff)

text \<open>
  C5. Every reachable stance (constructed with geometry, Done or Dangling, or cloned from
  such a stance by \<open>cloneTrot\<close> or \<open>cloneShift\<close>) holds a body, and its \<open>distanceFromGround\<close>
  is the z coordinate of the centre of gravity of that body: the accessor reads the stored
  body at each call.
\<close>

theorem distanceFromGround_is_cog_z:
  assumes "reachable env s"
  shows "\<exists>b. body s = Some b \<and> distanceFromGround s = Inr (vz (cog b))"
  using reachable_resolved [OF assms] by (auto simp: resolved_def distanceFromGround_def)

theorem distanceFromGround_is_cog_z_witness:
  "reachable scenario dangling_stance
   \<and> (\<exists>b. body dangling_stance = Some b
          \<and> distanceFromGround dangling_stance = Inr (vz (cog b)))"
proof -
  have r: "reachable scenario dangling_stance"
    by (rule reachable.constructed [of scenario scenario_dimensions pose_turned shifted_flags])
      (simp_all add: constructor_dangling shifted_flags_def dangling_stance_def)
  with distanceFromGround_is_cog_z [OF r] show ?thesis by simp
qed

text \<open>
  C6. For a resolved stance, \<open>cloneShift\<close> by \<open>(0, 0, 0)\<close> returns a stance whose body, legs,
  ground-contact points and local axes are those of the original: the clone is the original
  with the twist angle the constructor of the clone sets, 0.
\<close>

theorem cloneShift_zero_is_identity:
  "resolved s \<Longrightarrow> cloneShift env s 0 0 0 = Inr (s\<lparr>twistAngle := 0\<rparr>)"
  by (auto simp: resolved_def cloneShift_def constructor_shell init_this_def
      Hexagon_cloneShift_zero Linkage_cloneShift_zero Vector_cloneShift_zero)

theorem cloneShift_zero_is_identity_witness:
  "resolved (aligned_stance\<lparr>twistAngle := pi\<rparr>)
   \<and> cloneShift scenario (aligned_stance\<lparr>twistAngle := pi\<rparr>) 0 0 0
       = Inr (aligned_stance\<lparr>twistAngle := 0\<rparr>)"
  using cloneShift_zero_is_identity [of "aligned_stance\<lparr>twistAngle := pi\<rparr>" scenario]
  by (simp add: resolved_def aligned_stance_def aligned_of_def constructor_step2_def Let_def)

text \<open>
  C7. For a resolved stance, \<open>cloneTrot\<close> by the identity matrix returns a stance whose body,
  legs, ground-contact points and local axes are those of the original (numbers being exact
  reals): the clone is the original with the twist angle the constructor of the clone sets, 0.
\<close>

theorem cloneTrot_identity_is_identity:
  "resolved s \<Longrightarrow> cloneTrot env s identity4 = Inr (s\<lparr>twistAngle := 0\<rparr>)"
  by (auto simp: resolved_def cloneTrot_def constructor_shell init_this_def
      Hexagon_cloneTrot_identity Linkage_cloneTrot_identity Vector_cloneTrot_identity
      transformLocalAxes_identity)

theorem cloneTrot_identity_is_identity_witness:
  "resolved (aligned_stance\<lparr>twistAngle := pi\<rparr>)
   \<and> cloneTrot scenario (aligned_stance\<lparr>twistAngle := pi\<rparr>) identity4
       = Inr (aligned_stance\<lparr>twistAngle := 0\<rparr>)"
  using cloneTrot_identity_is_identity [of "aligned_stance\<lparr>twistAngle := pi\<rparr>" scenario]
  by (simp add: resolved_def aligned_stance_def aligned_of_def constructor_step2_def Let_def)

text \<open>
  C8. When the Dangling stance is built with \<open>shiftedUp\<close> set (because \<open>noGravity\<close> is set or
  because the solver returns no value), the body and every leg are the flat ones translated
  along the world z axis by \<open>coxia + femur + tibia\<close>; there are no ground-contact points and
  the local axes are the world unit axes.
\<close>

theorem shiftedUp_dangling_is_lifted:
  assumes "\<not> hasNoPoints flags" and "shiftedUp flags"
    and "noGravity flags \<or> solved_of env dims p = None"
  shows "constructor env dims p flags =
           Inr \<lparr>dimensions = dims, pose = p, twistAngle = 0,
                legs = Some (map (\<lambda>leg. Linkage_cloneShift leg 0 0
                                           (coxia dims + femur dims + tibia dims))
                               (legsNoGravity_of env dims p)),
                body = Some (Hexagon_cloneShift (flatHexagon_of env dims p) 0 0
                               (coxia dims + femur dims + tibia dims)),
                localAxes = Some unit_axes, groundContactPoints = Some []\<rparr>"
  using assms by (simp add: constructor_dangling danglingHexapod_shifted init_this_def)

theorem shiftedUp_dangling_is_lifted_witness:
  "\<not> hasNoPoints shifted_flags \<and> shiftedUp shifted_flags
   \<and> (noGravity shifted_flags \<or> solved_of scenario scenario_dimensions pose_turned = None)
   \<and> constructor scenario scenario_dimensions pose_turned shifted_flags =
       Inr \<lparr>dimensions = scenario_dimensions, pose = pose_turned, twistAngle = 0,
            legs = Some (map (\<lambda>leg. Linkage_cloneShift leg 0 0 260)
                           (legsNoGravity_of scenario scenario_dimensions pose_turned)),
            body = Some (Hexagon_cloneShift
                           (flatHexagon_of scenario scenario_dimensions pose_turned) 0 0 260),
            localAxes = Some unit_axes, groundContactPoints = Some []\<rparr>"
  using shiftedUp_dangling_is_lifted
    [of shifted_flags scenario scenario_dimensions pose_turned]
  by (simp add: shifted_flags_def scenario_dimensions_def)

text \<open>
  C9. Constructing with the flag \<open>hasNoPoints\<close> set returns the empty shell: it carries the
  given dimensions and pose and a twist angle of 0, while body, legs, local axes and
  ground-contact points stay unassigned. The result is the same whatever the collaborators
  are, so neither the hexagon, nor a leg, nor a solver contributes to it.
\<close>

theorem hasNoPoints_gives_shell:
  "hasNoPoints flags \<Longrightarrow>
     constructor env dims p flags =
       Inr \<lparr>dimensions = dims, pose = p, twistAngle = 0, legs = None, body = None,
            localAxes = None, groundContactPoints = None\<rparr>"
  by (simp add: constructor_def init_this_def)

theorem hasNoPoints_gives_shell_witness:
  "hasNoPoints hasNoPoints_flags \<and>
   constructor scenario scenario_dimensions pose_turned hasNoPoints_flags =
     Inr \<lparr>dimensions = scenario_dimensions, pose = pose_turned, twistAngle = 0, legs = None,
          body = None, localAxes = None, groundContactPoints = None\<rparr>"
  using hasNoPoints_gives_shell [of hasNoPoints_flags scenario scenario_dimensions pose_turned]
  by (simp add: hasNoPoints_flags_def)

text \<open>
  C10. For a resolved stance in the store and any shift, \<open>cloneShift\<close> returns a new object
  whose local axes are those of the original and which carries the dimensions and the pose
  of the original; and it leaves every object that was in the store as it was: the original
  keeps its dimensions, its pose and its twist angle. (The clone itself has the twist angle
  its constructor sets, 0.) The new object is the one the functional \<open>cloneShift\<close> returns.
\<close>

theorem cloneShift_leaves_original_unchanged:
  assumes "this < length h" and "resolved (h ! this)"
  shows "\<exists>h' clone. cloneShift_on_heap env h this tx ty tz = Inr (h', clone)
           \<and> clone = length h
           \<and> take (length h) h' = h
           \<and> h' ! this = h ! this
           \<and> dimensions (h' ! this) = dimensions (h ! this)
           \<and> pose (h' ! this) = pose (h ! this)
           \<and> twistAngle (h' ! this) = twistAngle (h ! this)
           \<and> localAxes (h' ! clone) = localAxes (h ! this)
           \<and> dimensions (h' ! clone) = dimensions (h ! this)
           \<and> pose (h' ! clone) = pose (h ! this)
           \<and> cloneShift env (h ! this) tx ty tz = Inr (h' ! clone)"
proof -
  from cloneShift_on_heap_result [OF assms, of env tx ty tz] obtain c where
    c: "cloneShift env (h ! this) tx ty tz = Inr c"
       "cloneShift_on_heap env h this tx ty tz = Inr (h @ [c], length h)"
    by blast
  from c(1) assms(2) have "localAxes c = localAxes (h ! this)"
    "dimensions c = dimensions (h ! this)" "pose c = pose (h ! this)"
    by (auto simp: resolved_def cloneShift_def constructor_shell init_this_def)
  with c assms(1) show ?thesis by (simp add: nth_append)
qed

theorem cloneShift_leaves_original_unchanged_witness:
  "0 < length [aligned_stance\<lparr>twistAngle := pi\<rparr>]
   \<and> resolved ([aligned_stance\<lparr>twistAngle := pi\<rparr>] ! 0)
   \<and> (\<exists>h' clone. cloneShift_on_heap scenario [aligned_stance\<lparr>twistAngle := pi\<rparr>] 0 1 2 3
                      = Inr (h', clone)
          \<and> clone = 1
          \<and> h' ! 0 = aligned_stance\<lparr>twistAngle := pi\<rparr>
          \<and> twistAngle (h' ! 0) = pi
          \<and> dimensions (h' ! 0) = scenario_dimensions
          \<and> pose (h' ! 0) = pose_turned
          \<and> localAxes (h' ! clone) = Some unit_axes)"
proof -
  let ?s = "aligned_stance\<lparr>twistAngle := pi\<rparr>"
  have fields: "dimensions ?s = scenario_dimensions" "pose ?s = pose_turned"
    "twistAngle ?s = pi" "localAxes ?s = Some unit_axes"
    using scenario_localAxes
    by (simp_all add: aligned_stance_def aligned_of_def step2_fields init_this_def)
  have 1: "0 < length [?s]"
    by simp
  have 2: "resolved ([?s] ! 0)"
    by (simp add: resolved_def aligned_stance_def aligned_of_def step2_fields)
  from cloneShift_leaves_original_unchanged [OF 1 2, of scenario 1 2 3]
  obtain h' clone where
    "cloneShift_on_heap scenario [?s] 0 1 2 3 = Inr (h', clone)" "clone = length [?s]"
    "h' ! 0 = [?s] ! 0" "localAxes (h' ! clone) = localAxes ([?s] ! 0)"
    by blast
  with 1 2 fields show ?thesis
    by auto
qed

end
